theory Spec2Isabelle
  imports Main "HOL-Library.Sublist"
begin

section \<open>Port-forward sessions and their per-cluster index\<close>

text \<open>
  The backend (\<^verbatim>\<open>backend/cmd/headlamp.go\<close>) keeps every tunnel in a package-level
  variable \<^verbatim>\<open>portForwards\<close> of type \<^verbatim>\<open>map[string][]PortForward\<close>. A Go channel is
  a reference; the model keeps its identity only. The stop channel of a tunnel is
  unbuffered (\<^verbatim>\<open>make(chan struct{})\<close>): a send on it completes only when a goroutine is
  waiting to receive from it, and blocks for good otherwise, as does a send on the nil
  channel. Which channels have a receiver waiting is part of the state. The receiver of a
  stop channel is the forwarder of the tunnel (\<^verbatim>\<open>ForwardPorts\<close>), which takes one value
  and returns: a send that completes uses the receiver up. The sends that completed are
  kept in a log, in their order.
\<close>

datatype chan = NilChan | Chan nat

text \<open>
  The decoded body of \<^verbatim>\<open>POST /portforward\<close>. Its field names are those of
  \<^verbatim>\<open>PortForward\<close>; they are written \<open>PortForwardPayload.ID\<close> and so on, the plain
  names being those of the session record declared after it.
\<close>

record PortForwardPayload =
  ID :: string
  Namespace :: string
  Pod :: string
  Service :: string
  ServiceNamespace :: string
  TargetPort :: string
  Cluster :: string
  Port :: string

record PortForward =
  ID :: string
  closeChan :: chan
  Pod :: string
  Service :: string
  ServiceNamespace :: string
  Namespace :: string
  Cluster :: string
  Port :: string
  TargetPort :: string
  Status :: string
  Error :: string

definition RUNNING :: string where
  "RUNNING = ''Running''"



type_synonym pf_store = "string \<rightharpoonup> PortForward list"

text \<open>
  The state the tunnel manager works on: the index, the log of the sends that completed,
  and the channels on which a receiver is waiting.
\<close>

record tunnel_state =
  portForwards :: pf_store
  signals :: "chan list"
  receivers :: "chan set"



text \<open>
  Indexing a Go map at a missing key yields the zero value of the element type, here the
  nil slice, which ranges and appends like the empty one.
\<close>

definition getPortForwardList :: "pf_store \<Rightarrow> string \<Rightarrow> PortForward list" where
  "getPortForwardList pfs cluster = (case pfs cluster of None \<Rightarrow> [] | Some l \<Rightarrow> l)"

text \<open>
  \<^verbatim>\<open>for index, v := range l { if v.ID == id { ... return } }\<close>: the index of the first
  element with the given id, if the loop finds one.
\<close>

fun findID :: "string \<Rightarrow> PortForward list \<Rightarrow> nat option" where
  "findID i [] = None"
| "findID i (v # vs) =
     (if ID v = i then Some 0
      else (case findID i vs of None \<Rightarrow> None | Some k \<Rightarrow> Some (Suc k)))"

text \<open>
  \<^verbatim>\<open>portforwardstore\<close>: overwrite the first entry of the cluster's list that has the same
  id, or append when the loop ends without a match.
\<close>

definition portforwardstore :: "pf_store \<Rightarrow> PortForward \<Rightarrow> pf_store" where
  "portforwardstore pfs p =
     (let l = getPortForwardList pfs (Cluster p) in
      case findID (ID p) l of
        Some index \<Rightarrow> pfs(Cluster p \<mapsto> l[index := p])
      | None \<Rightarrow> pfs(Cluster p \<mapsto> l @ [p]))"






subsection \<open>Opening a tunnel: the session record and the watchdog\<close>

text \<open>
  \<^verbatim>\<open>validatePortForward\<close>: the first missing field decides the message.
\<close>

definition validatePortForward :: "PortForwardPayload \<Rightarrow> string option" where
  "validatePortForward p =
     (if PortForwardPayload.Namespace p = '''' then Some ''namespace is required''
      else if PortForwardPayload.Pod p = '''' then Some ''pod name is required''
      else if PortForwardPayload.TargetPort p = '''' then Some ''targetPort is required''
      else if PortForwardPayload.Cluster p = '''' then Some ''cluster name is required''
      else None)"

text \<open>
  The record \<^verbatim>\<open>portForwardToStore\<close> that \<^verbatim>\<open>startPortForward\<close> builds from the payload
  and the stop channel it has just made.
\<close>

definition portForwardToStore :: "PortForwardPayload \<Rightarrow> chan \<Rightarrow> PortForward" where
  "portForwardToStore p stopChan =
     \<lparr>ID = PortForwardPayload.ID p,
      closeChan = stopChan,
      Pod = PortForwardPayload.Pod p,
      Service = PortForwardPayload.Service p,
      ServiceNamespace = PortForwardPayload.ServiceNamespace p,
      Namespace = PortForwardPayload.Namespace p,
      Cluster = PortForwardPayload.Cluster p,
      Port = PortForwardPayload.Port p,
      TargetPort = PortForwardPayload.TargetPort p,
      Status = RUNNING,
      Error = ''''\<rparr>"






subsection \<open>The bearer token of \<^verbatim>\<open>POST /portforward\<close>\<close>

text \<open>
  \<^verbatim>\<open>strings.Split(s, sep)\<close> for a non-empty separator: \<open>s\<close> is cut at every occurrence of
  \<open>sep\<close>, found left to right without overlap; the result always has one element more than
  there are cuts. (For the empty separator Go splits after each UTF-8 sequence; the handler
  never calls it so, and the model returns the pieces of one byte each.)
\<close>

function splitFrom :: "string \<Rightarrow> string \<Rightarrow> string \<Rightarrow> string list" where
  "splitFrom sep cur [] = [cur]"
| "splitFrom sep cur (c # cs) =
     (if sep \<noteq> [] \<and> prefix sep (c # cs)
      then cur # splitFrom sep [] (drop (length sep) (c # cs))
      else splitFrom sep (cur @ [c]) cs)"
  by pat_completeness auto
termination
  by (relation "measure (\<lambda>(sep, cur, s). length s)") auto

definition strings_Split :: "string \<Rightarrow> string \<Rightarrow> string list" where
  "strings_Split s sep = (if sep = [] then map (\<lambda>c. [c]) s else splitFrom sep [] s)"

text \<open>
  What can end a handler other than its return: a run-time panic (the server recovers it
  and drops the connection) or \<^verbatim>\<open>log.Fatal\<close>, which exits the process.
\<close>

datatype failure = Panic string | Fatal string

text \<open>Indexing a slice panics out of range.\<close>

definition sliceIndex :: "'a list \<Rightarrow> nat \<Rightarrow> failure + 'a" where
  "sliceIndex xs i = (if i < length xs then Inr (xs ! i) else Inl (Panic ''index out of range''))"

text \<open>
  Lines 485 to 490 of the handler: the header value is split on \<^verbatim>\<open>"Bearer "\<close> and the
  second piece is the token, read under the guard the source has.
\<close>

definition bearerToken :: "string \<Rightarrow> failure + string" where
  "bearerToken reqToken =
     (let splitToken = strings_Split reqToken ''Bearer '' in
      if reqToken \<noteq> '''' \<or> 2 < length splitToken then sliceIndex splitToken 1
      else Inr '''')"

section \<open>Requests, responses and what lies outside the program\<close>

text \<open>
  A request carries what the handlers read: \<^verbatim>\<open>r.Host\<close>, \<^verbatim>\<open>r.URL\<close>, \<^verbatim>\<open>r.RequestURI\<close>,
  the header map, the body, whether \<^verbatim>\<open>r.TLS\<close> is set, the route variables
  (\<^verbatim>\<open>mux.Vars(r)\<close>) and the parsed query (\<^verbatim>\<open>r.URL.Query()\<close>). A header map sends a key
  in canonical form to the list of its values; \<^verbatim>\<open>Get\<close> reads the first value and answers
  the empty string when there is none, \<^verbatim>\<open>Add\<close> appends a value, \<^verbatim>\<open>Set\<close> replaces them
  all. Keys are written canonically in the model (\<^verbatim>\<open>proxy-to\<close> is \<open>Proxy-To\<close>).
\<close>

type_synonym bytes = string

type_synonym header = "string \<rightharpoonup> string list"

definition headerGet :: "header \<Rightarrow> string \<Rightarrow> string" where
  "headerGet h key = (case h key of Some (v # _) \<Rightarrow> v | _ \<Rightarrow> '''')"

definition headerSet :: "header \<Rightarrow> string \<Rightarrow> string \<Rightarrow> header" where
  "headerSet h key v = h(key \<mapsto> [v])"


record url =
  Scheme :: string
  Host :: string
  Path :: string

record Request =
  Method :: string
  Host :: string
  URL :: url
  RequestURI :: string
  Header :: header
  Body :: string
  TLS :: bool
  vars :: "string \<rightharpoonup> string"
  query :: "string \<rightharpoonup> string list"

definition muxVar :: "Request \<Rightarrow> string \<Rightarrow> string" where
  "muxVar r key = (case vars r key of None \<Rightarrow> '''' | Some v \<Rightarrow> v)"

definition queryGet :: "Request \<Rightarrow> string \<Rightarrow> string" where
  "queryGet r key = (case query r key of Some (v # _) \<Rightarrow> v | _ \<Rightarrow> '''')"

text \<open>
  The response writer: its header map, the status once it has been written (the first
  \<^verbatim>\<open>WriteHeader\<close> wins, a later one is ignored) and the chunks written to the body. A
  \<^verbatim>\<open>Write\<close> before any status writes 200 first.
\<close>

record ResponseWriter =
  respHeader :: header
  statusCode :: "nat option"
  written :: "string list"

definition newResponseWriter :: ResponseWriter where
  "newResponseWriter = \<lparr>respHeader = Map.empty, statusCode = None, written = []\<rparr>"

definition StatusOK :: nat where "StatusOK = 200"
definition StatusCreated :: nat where "StatusCreated = 201"
definition StatusFound :: nat where "StatusFound = 302"
definition StatusSeeOther :: nat where "StatusSeeOther = 303"
definition StatusBadRequest :: nat where "StatusBadRequest = 400"
definition StatusForbidden :: nat where "StatusForbidden = 403"
definition StatusNotFound :: nat where "StatusNotFound = 404"
definition StatusInternalServerError :: nat where "StatusInternalServerError = 500"
definition StatusBadGateway :: nat where "StatusBadGateway = 502"

definition WriteHeader :: "ResponseWriter \<Rightarrow> nat \<Rightarrow> ResponseWriter" where
  "WriteHeader w code = (if statusCode w = None then w\<lparr>statusCode := Some code\<rparr> else w)"

definition Write :: "ResponseWriter \<Rightarrow> string \<Rightarrow> ResponseWriter" where
  "Write w chunk = (let w' = WriteHeader w StatusOK in w'\<lparr>written := written w' @ [chunk]\<rparr>)"

text \<open>
  \<^verbatim>\<open>http.Error\<close> sets the content type, writes the status and prints the message on a
  line; \<^verbatim>\<open>http.NotFound\<close> is \<^verbatim>\<open>http.Error\<close> with its fixed text; \<^verbatim>\<open>http.Redirect\<close> sets
  \<^verbatim>\<open>Location\<close> and writes the status (the short HTML note it adds to the body of a GET is
  left out).
\<close>

definition http_Error :: "ResponseWriter \<Rightarrow> string \<Rightarrow> nat \<Rightarrow> ResponseWriter" where
  "http_Error w msg code =
     Write
       (WriteHeader
          (w\<lparr>respHeader :=
               headerSet (headerSet (respHeader w) ''Content-Type'' ''text/plain; charset=utf-8'')
                 ''X-Content-Type-Options'' ''nosniff''\<rparr>)
          code)
       (msg @ [CHR 0x0A])"


definition http_Redirect :: "ResponseWriter \<Rightarrow> string \<Rightarrow> nat \<Rightarrow> ResponseWriter" where
  "http_Redirect w location code =
     WriteHeader (w\<lparr>respHeader := headerSet (respHeader w) ''Location'' location\<rparr>) code"

subsection \<open>Targets and their credential material\<close>

text \<open>
  Modelled from the spec: the declarations of \<^verbatim>\<open>Context\<close>, \<^verbatim>\<open>Cluster\<close> and
  \<^verbatim>\<open>ClusterReq\<close> are in files of the repository that are not among the sources. The
  records hold the fields that \<^verbatim>\<open>headlamp.go\<close> reads and writes, which are those of the
  spec's ProxyTarget and CredentialMaterial (name, base URL, trust bundle, the flag for
  skipping verification, client certificate and key as paths or inline bytes, bearer
  token, upstream proxy URL). \<^verbatim>\<open>authInfo\<close> and \<^verbatim>\<open>config\<close> are pointers in the source
  (\<^verbatim>\<open>startPortForward\<close> tests \<^verbatim>\<open>authInfo != nil\<close>, \<^verbatim>\<open>addCluster\<close> builds a context
  without one), hence options here; byte slices that the source compares with \<^verbatim>\<open>nil\<close>
  are options too.
\<close>

record AuthInfo =
  ClientCertificate :: string
  ClientCertificateData :: "bytes option"
  ClientKey :: string
  ClientKeyData :: "bytes option"
  Token :: string

record KubeCluster =
  Server :: string
  InsecureSkipTLSVerify :: bool
  CertificateAuthorityData :: "bytes option"

record ClusterReq =
  Name :: string
  Server :: string
  InsecureSkipTLSVerify :: bool
  CertificateAuthorityData :: "bytes option"
  Metadata :: string

record Cluster =
  Name :: string
  Server :: string
  config :: "KubeCluster option"
  Metadata :: string
  ProxyURL :: string

record Context =
  Name :: string
  cluster :: Cluster
  authInfo :: "AuthInfo option"

text \<open>
  The TLS configuration, the transport and the reverse proxy, as far as
  \<^verbatim>\<open>createProxyForContext\<close> fills them in. A certificate pool is the list of PEM blocks
  appended to it; a key pair is the pair of its two inputs.
\<close>

type_synonym certificate = "string \<times> string"

record tls_Config =
  InsecureSkipVerify :: bool
  RootCAs :: "bytes list"
  Certificates :: "certificate list"

datatype transport_proxy = NilProxyFunc | http_ProxyURL "url option"

record http_Transport =
  Proxy :: transport_proxy
  TLSClientConfig :: tls_Config

record ReverseProxy =
  target :: url
  Transport :: "http_Transport option"

definition KubeConfig :: int where "KubeConfig = 1"
definition DynamicCluster :: int where "DynamicCluster = 2"
definition InCluster :: int where "InCluster = 4"

record contextProxy =
  "context" :: Context
  proxy :: "ReverseProxy option"
  source :: int

record HeadlampConfig =
  useInCluster :: bool
  devMode :: bool
  insecure :: bool
  kubeConfigPath :: string
  port :: nat
  staticDir :: string
  pluginDir :: string
  oidcClientID :: string
  oidcClientSecret :: string
  oidcScopes :: "string list"
  oidcIdpIssuerURL :: string
  baseURL :: string
  contextProxies :: "string \<rightharpoonup> contextProxy"
  proxyURLs :: "string list"

subsection \<open>Libraries and absent code, as parameters\<close>

text \<open>
  What the handlers call but do not define is a parameter of the model. From the standard
  library and third-party packages: \<^verbatim>\<open>url.Parse\<close> (\<open>None\<close> when it returns an error),
  \<^verbatim>\<open>URL.String\<close>, \<^verbatim>\<open>URL.RequestURI\<close>, \<^verbatim>\<open>glob.Compile\<close> (\<open>None\<close> for a pattern that
  \<^verbatim>\<open>glob.MustCompile\<close> panics on, else the compiled matcher) and the round trip of a
  reverse proxy's transport: the error of the transport when the request does not get
  through (an unsupported scheme, no host, an upstream that cannot be reached), else the
  status and the body of the upstream's answer. From files of the repository that
  are not among the sources: the methods of \<^verbatim>\<open>Context\<close> and \<^verbatim>\<open>Cluster\<close>, the JSON
  codecs of the registry's requests and replies, and \<^verbatim>\<open>pluginsChanged\<close>.
\<close>

record net_env =
  url_Parse :: "string \<Rightarrow> url option"
  url_String :: "url \<Rightarrow> string"
  url_RequestURI :: "url \<Rightarrow> string"
  glob_Compile :: "string \<Rightarrow> (string \<Rightarrow> bool) option"
  roundTrip :: "ReverseProxy \<Rightarrow> Request \<Rightarrow> string + nat \<times> string"
  pluginsChanged :: "string list option \<Rightarrow> bool"

record kube_env =
  getServer :: "Cluster \<Rightarrow> string"
  getCAData :: "Cluster \<Rightarrow> string + bytes"
  shouldVerifyTLS :: "Cluster \<Rightarrow> bool"
  getClientCertificate :: "Context \<Rightarrow> string"
  getClientKey :: "Context \<Rightarrow> string"
  getClientCertificateData :: "Context \<Rightarrow> bytes option"
  getClientKeyData :: "Context \<Rightarrow> bytes option"
  LoadX509KeyPair :: "string \<Rightarrow> string \<Rightarrow> certificate option"
  X509KeyPair :: "bytes \<Rightarrow> bytes \<Rightarrow> certificate option"
  decodeClusterReq :: "string \<Rightarrow> ClusterReq option"
  encodeConfig :: "Cluster set \<Rightarrow> string"

section \<open>The proxy factory\<close>

datatype config_error =
    BadServerURL string
  | CADataError string
  | MissingClientKey
  | MissingClientKeyData

text \<open>
  \<^verbatim>\<open>getTransportProxy\<close>: the error of \<^verbatim>\<open>url.Parse\<close> is dropped, so a proxy URL that
  does not parse gives \<^verbatim>\<open>http.ProxyURL(nil)\<close>.
\<close>

definition getTransportProxy :: "net_env \<Rightarrow> Cluster \<Rightarrow> transport_proxy" where
  "getTransportProxy n cl =
     (if ProxyURL cl \<noteq> '''' then http_ProxyURL (url_Parse n (ProxyURL cl)) else NilProxyFunc)"

text \<open>
  The two blocks of \<^verbatim>\<open>createProxyForContext\<close> that load a client certificate, from file
  paths and from inline data. A certificate without its key is an error; a pair that does
  not load is passed over.
\<close>

definition certsFromFiles ::
    "kube_env \<Rightarrow> Context \<Rightarrow> certificate list \<Rightarrow> config_error + certificate list" where
  "certsFromFiles k ctx certs =
     (let clientCert = getClientCertificate k ctx in
      if clientCert \<noteq> '''' then
        (let clientKey = getClientKey k ctx in
         if clientKey = '''' then Inl MissingClientKey
         else (case LoadX509KeyPair k clientCert clientKey of
                 Some cert \<Rightarrow> Inr (certs @ [cert])
               | None \<Rightarrow> Inr certs))
      else Inr certs)"

definition certsFromData ::
    "kube_env \<Rightarrow> Context \<Rightarrow> certificate list \<Rightarrow> config_error + certificate list" where
  "certsFromData k ctx certs =
     (case getClientCertificateData k ctx of
        None \<Rightarrow> Inr certs
      | Some clientCertData \<Rightarrow>
          (case getClientKeyData k ctx of
             None \<Rightarrow> Inl MissingClientKeyData
           | Some clientKeyData \<Rightarrow>
               (case X509KeyPair k clientCertData clientKeyData of
                  Some cert \<Rightarrow> Inr (certs @ [cert])
                | None \<Rightarrow> Inr certs)))"

text \<open>
  \<^verbatim>\<open>createProxyForContext\<close>. The local \<^verbatim>\<open>shouldVerifyTLS\<close> is computed as the source
  computes it and is the value the source stores in \<^verbatim>\<open>InsecureSkipVerify\<close>.
\<close>

definition createProxyForContext ::
    "net_env \<Rightarrow> kube_env \<Rightarrow> HeadlampConfig \<Rightarrow> Context \<Rightarrow> config_error + ReverseProxy" where
  "createProxyForContext n k c ctx =
     (let cl = cluster ctx in
      case url_Parse n (getServer k cl) of
        None \<Rightarrow> Inl (BadServerURL (Cluster.Name cl))
      | Some server \<Rightarrow>
          (let verify = (\<not> insecure c \<or> shouldVerifyTLS k cl) in
           case (if verify
                 then (case getCAData k cl of
                         Inl err \<Rightarrow> Inl (CADataError err)
                       | Inr certificate \<Rightarrow> Inr [certificate])
                 else Inr []) of
             Inl err \<Rightarrow> Inl err
           | Inr rootCAs \<Rightarrow>
               (case certsFromFiles k ctx [] of
                  Inl err \<Rightarrow> Inl err
                | Inr certs1 \<Rightarrow>
                    (case certsFromData k ctx certs1 of
                       Inl err \<Rightarrow> Inl err
                     | Inr certs \<Rightarrow>
                         Inr \<lparr>target = server,
                              Transport = Some
                                \<lparr>Proxy = getTransportProxy n cl,
                                 TLSClientConfig =
                                   \<lparr>InsecureSkipVerify = verify,
                                    RootCAs = rootCAs,
                                    Certificates = certs\<rparr>\<rparr>\<rparr>))))"

section \<open>The registry of targets\<close>

text \<open>
  \<^verbatim>\<open>getClusters\<close> ranges over the map; Go leaves the order of that iteration open, so the
  snapshot is a set. \<^verbatim>\<open>getConfig\<close> writes its JSON.
\<close>

definition getClusters :: "HeadlampConfig \<Rightarrow> Cluster set" where
  "getClusters c = (\<lambda>cp. cluster (context cp)) ` ran (contextProxies c)"

definition getConfig :: "kube_env \<Rightarrow> HeadlampConfig \<Rightarrow> ResponseWriter \<Rightarrow> ResponseWriter" where
  "getConfig k c w =
     Write (w\<lparr>respHeader := headerSet (respHeader w) ''Content-Type'' ''application/json''\<rparr>)
       (encodeConfig k (getClusters c))"

text \<open>
  \<^verbatim>\<open>addCluster\<close>: the new context has no \<^verbatim>\<open>authInfo\<close>; the entry is tagged
  \<^verbatim>\<open>DynamicCluster\<close> and replaces whatever the name held.
\<close>

definition addCluster ::
    "net_env \<Rightarrow> kube_env \<Rightarrow> HeadlampConfig \<Rightarrow> Request \<Rightarrow> ResponseWriter
      \<Rightarrow> HeadlampConfig \<times> ResponseWriter" where
  "addCluster n k c r w =
     (case decodeClusterReq k (Body r) of
        None \<Rightarrow> (c, http_Error w ''Error decoding cluster info'' StatusBadRequest)
      | Some clusterReq \<Rightarrow>
          if ClusterReq.Name clusterReq = '''' \<or> ClusterReq.Server clusterReq = '''' then
            (c, http_Error w
               ''Error creating cluster with invalid info; please provide a 'name' and 'server' fields at least.''
               StatusBadRequest)
          else
            (let ctx =
               \<lparr>Context.Name = ClusterReq.Name clusterReq,
                cluster =
                  \<lparr>Cluster.Name = ClusterReq.Name clusterReq,
                   Cluster.Server = ClusterReq.Server clusterReq,
                   config = Some
                     \<lparr>KubeCluster.Server = ClusterReq.Server clusterReq,
                      KubeCluster.InsecureSkipTLSVerify =
                        ClusterReq.InsecureSkipTLSVerify clusterReq,
                      KubeCluster.CertificateAuthorityData =
                        ClusterReq.CertificateAuthorityData clusterReq\<rparr>,
                   Cluster.Metadata = ClusterReq.Metadata clusterReq,
                   ProxyURL = ''''\<rparr>,
                authInfo = None\<rparr>
             in case createProxyForContext n k c ctx of
                  Inl err \<Rightarrow> (c, http_Error w ''Error setting up cluster'' StatusBadRequest)
                | Inr p \<Rightarrow>
                    (let c' = c\<lparr>contextProxies := (contextProxies c)
                                 (ClusterReq.Name clusterReq \<mapsto>
                                    \<lparr>context = ctx, proxy = Some p, source = DynamicCluster\<rparr>)\<rparr>
                     in (c', getConfig k c' (WriteHeader w StatusCreated)))))"

text \<open>
  \<^verbatim>\<open>deleteCluster\<close>: the name is the route variable \<^verbatim>\<open>name\<close>.
\<close>

definition deleteCluster ::
    "kube_env \<Rightarrow> HeadlampConfig \<Rightarrow> Request \<Rightarrow> ResponseWriter
      \<Rightarrow> HeadlampConfig \<times> ResponseWriter" where
  "deleteCluster k c r w =
     (let name = muxVar r ''name'' in
      case contextProxies c name of
        None \<Rightarrow> (c, http_Error w ''Cluster not found'' StatusNotFound)
      | Some cp \<Rightarrow>
          if source cp \<noteq> DynamicCluster then
            (c, http_Error w ''Cannot delete a static cluster'' StatusForbidden)
          else
            (let c' = c\<lparr>contextProxies := (contextProxies c)(name := None)\<rparr>
             in (c', getConfig k c' w)))"

section \<open>The router, the outbound relay and the authentication flow\<close>

text \<open>
  The pending authorization flows: what \<^verbatim>\<open>/oidc\<close> stores under a state token. Tokens,
  providers and verifiers are values of the libraries \<^verbatim>\<open>oauth2\<close> and \<^verbatim>\<open>go-oidc\<close>; the
  model keeps a name for each.
\<close>

datatype oidc_ctx = Background | InsecureClientContext

record OidcConfig =
  ClientID :: string
  ClientSecret :: string
  IdpIssuerURL :: string
  Scopes :: "string list"

record oauth2_Config =
  ClientID :: string
  ClientSecret :: string
  Endpoint :: string
  RedirectURL :: string
  Scopes :: "string list"

record OauthConfig =
  Config :: oauth2_Config
  Verifier :: "string \<times> string"
  Ctx :: oidc_ctx

text \<open>
  The calls of the flow that leave the process or belong to a library, as parameters:
  \<^verbatim>\<open>GetClusterOidcConfig\<close> (of the repository, not among the sources),
  \<^verbatim>\<open>oidc.NewProvider\<close> and the provider's endpoint, \<^verbatim>\<open>AuthCodeURL\<close>, the two directions
  of \<^verbatim>\<open>base64.StdEncoding\<close>, \<^verbatim>\<open>Exchange\<close>, the \<^verbatim>\<open>id_token\<close> extra of the exchanged
  token (\<open>None\<close> when it is absent or not a string), \<^verbatim>\<open>Verify\<close> and \<^verbatim>\<open>Claims\<close> (its
  error, if any). An error is its text on the left; \<^verbatim>\<open>DecodeString\<close> returns the bytes
  it decoded together with its error, if any.
\<close>

record oidc_env =
  GetClusterOidcConfig :: "string \<Rightarrow> string + OidcConfig"
  oidc_NewProvider :: "oidc_ctx \<Rightarrow> string \<Rightarrow> string + string"
  provider_Endpoint :: "string \<Rightarrow> string"
  AuthCodeURL :: "oauth2_Config \<Rightarrow> string \<Rightarrow> string"
  EncodeToString :: "string \<Rightarrow> string"
  DecodeString :: "string \<Rightarrow> string \<times> string option"
  Exchange :: "OauthConfig \<Rightarrow> string \<Rightarrow> string + string"
  Extra_id_token :: "string \<Rightarrow> string option"
  Verify :: "OauthConfig \<Rightarrow> string \<Rightarrow> string + string"
  Claims :: "string \<Rightarrow> string option"

text \<open>
  The state of the serving process that the handlers share: the configuration with its
  registry, the list behind the plugin reload signal, the pending flows, and two logs, each
  in the order of the events: \<open>relayed\<close>, the requests handed to a reverse proxy for
  relaying, each with the proxy that took it, and \<open>delivered\<close>, those of them that the
  proxy's transport got through to the upstream.
\<close>

record server_state =
  headlampConfig :: HeadlampConfig
  pluginListURLs :: "string list option"
  oauthRequestMap :: "string \<rightharpoonup> OauthConfig"
  relayed :: "(ReverseProxy \<times> Request) list"
  delivered :: "(ReverseProxy \<times> Request) list"



text \<open>
  \<^verbatim>\<open>proxy.ServeHTTP(w, r)\<close>: the proxy sends the request to its target through its
  transport. When the round trip fails nothing reaches the upstream and the proxy's error
  handler writes 502; otherwise the upstream's status and body are copied to the response.
  Calling it on a nil proxy dereferences nil.
\<close>

definition ServeHTTP ::
    "net_env \<Rightarrow> ReverseProxy option \<Rightarrow> server_state \<Rightarrow> ResponseWriter \<Rightarrow> Request
      \<Rightarrow> failure + server_state \<times> ResponseWriter" where
  "ServeHTTP n p s w r =
     (case p of
        None \<Rightarrow> Inl (Panic ''nil pointer dereference'')
      | Some rp \<Rightarrow>
          (let s1 = s\<lparr>relayed := relayed s @ [(rp, r)]\<rparr> in
           case roundTrip n rp r of
             Inl err \<Rightarrow> Inr (s1, WriteHeader w StatusBadGateway)
           | Inr (code, body) \<Rightarrow>
               Inr (s1\<lparr>delivered := delivered s1 @ [(rp, r)]\<rparr>,
                    Write (WriteHeader w code) body)))"



subsection \<open>\<^verbatim>\<open>/externalproxy\<close>\<close>

text \<open>
  The loop over \<^verbatim>\<open>config.proxyURLs\<close>: each pattern is compiled, then matched, and the
  first match ends the loop.
\<close>

fun matchProxyURLs :: "net_env \<Rightarrow> string list \<Rightarrow> string \<Rightarrow> failure + bool" where
  "matchProxyURLs n [] u = Inr False"
| "matchProxyURLs n (proxyURL # rest) u =
     (case glob_Compile n proxyURL of
        None \<Rightarrow> Inl (Panic ''glob: pattern does not compile'')
      | Some g \<Rightarrow> if g u then Inr True else matchProxyURLs n rest u)"

text \<open>
  The handler. After \<^verbatim>\<open>http.Error\<close> in the branch of no match the source has no
  \<^verbatim>\<open>return\<close>: control goes on to the statements that follow.
\<close>

definition externalproxy ::
    "net_env \<Rightarrow> server_state \<Rightarrow> ResponseWriter \<Rightarrow> Request
      \<Rightarrow> failure + server_state \<times> ResponseWriter" where
  "externalproxy n s w r =
     (case url_Parse n (headerGet (Header r) ''Proxy-To'') of
        None \<Rightarrow> Inl (Fatal ''Failed to get URL from server'')
      | Some u \<Rightarrow>
          (case matchProxyURLs n (proxyURLs (headlampConfig s)) (url_String n u) of
             Inl f \<Rightarrow> Inl f
           | Inr isURLContainedInProxyURLs \<Rightarrow>
               (let w' = (if \<not> isURLContainedInProxyURLs
                          then http_Error w ''no allowed proxy url match, request denied ''
                                 StatusBadRequest
                          else w);
                    p = \<lparr>target = u, Transport = None\<rparr>;
                    r' = r\<lparr>Host := url.Host u,
                           URL := (URL r)\<lparr>url.Host := url.Host u, Scheme := Scheme u\<rparr>,
                           RequestURI := url_RequestURI n u\<rparr>
                in ServeHTTP n (Some p) s w' r')))"

subsection \<open>\<^verbatim>\<open>/oidc\<close> and \<^verbatim>\<open>/oidc-callback\<close>\<close>

text \<open>
  \<^verbatim>\<open>strings.Trim(s, "/")\<close> drops the slashes at both ends; the verb \<^verbatim>\<open>%ns\<close> of
  \<^verbatim>\<open>fmt.Sprintf\<close> pads its argument with spaces on the left up to the width \<open>n\<close>.
\<close>

definition strings_Trim :: "string \<Rightarrow> char \<Rightarrow> string" where
  "strings_Trim s ch = rev (dropWhile (\<lambda>c. c = ch) (rev (dropWhile (\<lambda>c. c = ch) s)))"

definition padLeft :: "nat \<Rightarrow> string \<Rightarrow> string" where
  "padLeft width s = replicate (width - length s) CHR '' '' @ s"

definition getOidcCallbackURL :: "Request \<Rightarrow> HeadlampConfig \<Rightarrow> string" where
  "getOidcCallbackURL r c =
     (let urlScheme =
            (if Scheme (URL r) = '''' then
               (let fwdProto = headerGet (Header r) ''X-Forwarded-Proto'' in
                if fwdProto \<noteq> '''' then fwdProto
                else if prefix ''localhost:'' (Host r) \<or> \<not> TLS r then ''http''
                else ''https'')
             else Scheme (URL r));
          hostOnly = strings_Trim (Host r) CHR ''/'';
          base = strings_Trim (baseURL c) CHR ''/'';
          hostWithBaseURL = (if base \<noteq> '''' then hostOnly @ ''/'' @ base else hostOnly)
      in urlScheme @ ''://'' @ hostWithBaseURL @ ''/oidc-callback'')"

definition ScopeOpenID :: string where
  "ScopeOpenID = ''openid''"

text \<open>
  \<^verbatim>\<open>GET /oidc\<close>: the state token is the base64 text of the cluster name, and the flow is
  stored under it before the redirect.
\<close>

definition oidc ::
    "oidc_env \<Rightarrow> server_state \<Rightarrow> ResponseWriter \<Rightarrow> Request \<Rightarrow> server_state \<times> ResponseWriter" where
  "oidc e s w r =
     (let cl = queryGet r ''cluster'';
          ctx = (if insecure (headlampConfig s) then InsecureClientContext else Background)
      in case GetClusterOidcConfig e cl of
           Inl err \<Rightarrow> (s, http_Error w err StatusInternalServerError)
         | Inr oidcAuthConfig \<Rightarrow>
             (case oidc_NewProvider e ctx (IdpIssuerURL oidcAuthConfig) of
                Inl err \<Rightarrow> (s, http_Error w err StatusInternalServerError)
              | Inr provider \<Rightarrow>
                  (let verifier = (provider, OidcConfig.ClientID oidcAuthConfig);
                       oauthConfig =
                         \<lparr>oauth2_Config.ClientID = OidcConfig.ClientID oidcAuthConfig,
                          oauth2_Config.ClientSecret = OidcConfig.ClientSecret oidcAuthConfig,
                          Endpoint = provider_Endpoint e provider,
                          RedirectURL = getOidcCallbackURL r (headlampConfig s),
                          oauth2_Config.Scopes = ScopeOpenID # OidcConfig.Scopes oidcAuthConfig\<rparr>;
                       state = EncodeToString e cl
                   in (s\<lparr>oauthRequestMap := (oauthRequestMap s)
                            (state \<mapsto> \<lparr>Config = oauthConfig, Verifier = verifier, Ctx = ctx\<rparr>)\<rparr>,
                       http_Redirect w (AuthCodeURL e oauthConfig state) StatusFound))))"

text \<open>
  \<^verbatim>\<open>GET /oidc-callback\<close>. A state that does not decode gets its 400 written and the
  handler goes on (no \<^verbatim>\<open>return\<close> there). No statement of the handler assigns to
  \<^verbatim>\<open>oauthRequestMap\<close> or deletes from it.
\<close>

definition oidcCallbackFound ::
    "oidc_env \<Rightarrow> server_state \<Rightarrow> ResponseWriter \<Rightarrow> Request \<Rightarrow> OauthConfig \<Rightarrow> string
      \<Rightarrow> ResponseWriter" where
  "oidcCallbackFound e s w r oauthConfig decodedState =
     (case Exchange e oauthConfig (queryGet r ''code'') of
        Inl err \<Rightarrow> http_Error w (''Failed to exchange token: '' @ err) StatusInternalServerError
      | Inr oauth2Token \<Rightarrow>
          (case Extra_id_token e oauth2Token of
             None \<Rightarrow> http_Error w ''No id_token field in oauth2 token.'' StatusInternalServerError
           | Some rawIDToken \<Rightarrow>
               (case Verify e oauthConfig rawIDToken of
                  Inl err \<Rightarrow>
                    http_Error w (''Failed to verify ID Token: '' @ err) StatusInternalServerError
                | Inr idToken \<Rightarrow>
                    (case Claims e idToken of
                       Some err \<Rightarrow> http_Error w err StatusInternalServerError
                     | None \<Rightarrow>
                         http_Redirect w
                           ((if devMode (headlampConfig s) then ''http://localhost:3000/'' else ''/'')
                            @ ''auth?cluster='' @ padLeft 1 decodedState
                            @ ''&token='' @ padLeft 2 rawIDToken)
                           StatusSeeOther))))"

definition oidcCallback ::
    "oidc_env \<Rightarrow> server_state \<Rightarrow> ResponseWriter \<Rightarrow> Request \<Rightarrow> server_state \<times> ResponseWriter" where
  "oidcCallback e s w r =
     (let state = queryGet r ''state'';
          (decodedState, err) = DecodeString e state;
          w1 = (case err of
                  Some msg \<Rightarrow>
                    http_Error w (''wrong state set, invalid request '' @ msg) StatusBadRequest
                | None \<Rightarrow> w)
      in if state = '''' then (s, http_Error w1 ''invalid request state is empty'' StatusBadRequest)
         else (case oauthRequestMap s state of
                 Some oauthConfig \<Rightarrow> (s, oidcCallbackFound e s w1 r oauthConfig decodedState)
               | None \<Rightarrow> (s, http_Error w1 ''invalid request'' StatusBadRequest)))"

subsection \<open>\<^verbatim>\<open>POST /portforward\<close>, up to the validated payload\<close>

text \<open>
  The handler from its first line to the check of the payload: the body is decoded (the
  decoder and the fresh UUID are parameters), a missing id is filled in, the token is
  taken from the \<^verbatim>\<open>Authorization\<close> header, and the payload is validated. It answers
  itself (left) or goes on with the payload and the token (right).
\<close>

definition portforwardPOST ::
    "(string \<Rightarrow> string + PortForwardPayload) \<Rightarrow> string \<Rightarrow> ResponseWriter \<Rightarrow> Request
      \<Rightarrow> failure + (ResponseWriter + PortForwardPayload \<times> string)" where
  "portforwardPOST decode uuid w r =
     (case decode (Body r) of
        Inl err \<Rightarrow> Inr (Inl (http_Error w (''invalid request '' @ err) StatusBadRequest))
      | Inr p0 \<Rightarrow>
          (let p = (if PortForwardPayload.ID p0 = '''' then p0\<lparr>PortForwardPayload.ID := uuid\<rparr>
                    else p0)
           in case bearerToken (headerGet (Header r) ''Authorization'') of
                Inl f \<Rightarrow> Inl f
              | Inr token \<Rightarrow>
                  (case validatePortForward p of
                     Some err \<Rightarrow>
                       Inr (Inl (http_Error w (''invalid request '' @ err) StatusBadRequest))
                   | None \<Rightarrow> Inr (Inr (p, token)))))"

section \<open>Concrete instances\<close>

text \<open>
  Values on which the theorems below are run: a cluster \<open>c1\<close> with a session \<open>s1\<close>
  whose forwarder is waiting on its stop channel, a registry with one target from the
  kubeconfig and one added at run time, an allow-list of one URL, and instances of the
  parameters. The base64 of the instance is the standard alphabet with padding.
\<close>

definition samplePayload :: PortForwardPayload where
  "samplePayload =
     \<lparr>PortForwardPayload.ID = ''s1'',
      PortForwardPayload.Namespace = ''ns1'',
      PortForwardPayload.Pod = ''pod1'',
      PortForwardPayload.Service = '''',
      PortForwardPayload.ServiceNamespace = '''',
      PortForwardPayload.TargetPort = ''8080'',
      PortForwardPayload.Cluster = ''c1'',
      PortForwardPayload.Port = ''9000''\<rparr>"

definition sampleSession :: PortForward where
  "sampleSession = portForwardToStore samplePayload (Chan 1)"

definition sampleTunnels :: tunnel_state where
  "sampleTunnels =
     \<lparr>portForwards = [''c1'' \<mapsto> [sampleSession]], signals = [], receivers = {Chan 1}\<rparr>"


text \<open>
  The instance of the network parameters. \<open>sampleParse\<close> is \<^verbatim>\<open>url.Parse\<close> on the four
  strings the instances use, with the answers Go gives: an absolute URL has its scheme,
  host and path; a string without a scheme, such as \<^verbatim>\<open>evil.example\<close>, is a path with no
  scheme and no host; the empty string is the empty URL. (On any other string the table
  answers with an error; nothing below calls it there.) \<open>sampleString\<close> and
  \<open>sampleRequestURI\<close> put such a URL together again as \<^verbatim>\<open>URL.String\<close> and
  \<^verbatim>\<open>URL.RequestURI\<close> do. The matcher is that of a pattern without metacharacters, which
  matches itself only. The transport gets through to an \<^verbatim>\<open>http\<close> or \<^verbatim>\<open>https\<close> target
  with a host, and fails on any other target as Go's does (unsupported protocol scheme,
  no host in the request URL).
\<close>

definition sampleParse :: "string \<Rightarrow> url option" where
  "sampleParse s =
     (if s = ''https://k8s.example:6443''
      then Some \<lparr>Scheme = ''https'', url.Host = ''k8s.example:6443'', Path = ''''\<rparr>
      else if s = ''https://evil.example/steal''
      then Some \<lparr>Scheme = ''https'', url.Host = ''evil.example'', Path = ''/steal''\<rparr>
      else if s = ''evil.example''
      then Some \<lparr>Scheme = '''', url.Host = '''', Path = ''evil.example''\<rparr>
      else if s = ''''
      then Some \<lparr>Scheme = '''', url.Host = '''', Path = ''''\<rparr>
      else None)"

definition sampleString :: "url \<Rightarrow> string" where
  "sampleString u =
     (if Scheme u = '''' then '''' else Scheme u @ '':'')
     @ (if url.Host u = '''' then '''' else ''//'' @ url.Host u)
     @ Path u"

definition sampleRequestURI :: "url \<Rightarrow> string" where
  "sampleRequestURI u = (if Path u = '''' then ''/'' else Path u)"

definition sampleRoundTrip :: "ReverseProxy \<Rightarrow> Request \<Rightarrow> string + nat \<times> string" where
  "sampleRoundTrip p r =
     (if Scheme (target p) = ''http'' \<or> Scheme (target p) = ''https'' then
        (if url.Host (target p) = '''' then Inl ''http: no Host in request URL''
         else Inr (200, ''upstream''))
      else Inl ''unsupported protocol scheme'')"

definition sampleNet :: net_env where
  "sampleNet =
     \<lparr>url_Parse = sampleParse,
      url_String = sampleString,
      url_RequestURI = sampleRequestURI,
      glob_Compile = (\<lambda>pat. Some (\<lambda>subject. subject = pat)),
      roundTrip = sampleRoundTrip,
      pluginsChanged = (\<lambda>l. l \<noteq> None)\<rparr>"

definition sampleKube :: kube_env where
  "sampleKube =
     \<lparr>getServer = Cluster.Server,
      getCAData = (\<lambda>cl. case config cl of
                           Some kc \<Rightarrow> (case KubeCluster.CertificateAuthorityData kc of
                                          Some ca \<Rightarrow> Inr ca
                                        | None \<Rightarrow> Inl ''no CA data'')
                         | None \<Rightarrow> Inl ''no cluster config''),
      shouldVerifyTLS = (\<lambda>cl. case config cl of
                                 Some kc \<Rightarrow> \<not> KubeCluster.InsecureSkipTLSVerify kc
                               | None \<Rightarrow> True),
      getClientCertificate = (\<lambda>ctx. case authInfo ctx of
                                      Some ai \<Rightarrow> ClientCertificate ai | None \<Rightarrow> ''''),
      getClientKey = (\<lambda>ctx. case authInfo ctx of Some ai \<Rightarrow> ClientKey ai | None \<Rightarrow> ''''),
      getClientCertificateData = (\<lambda>ctx. case authInfo ctx of
                                          Some ai \<Rightarrow> ClientCertificateData ai | None \<Rightarrow> None),
      getClientKeyData = (\<lambda>ctx. case authInfo ctx of
                                  Some ai \<Rightarrow> ClientKeyData ai | None \<Rightarrow> None),
      LoadX509KeyPair = (\<lambda>certFile keyFile. Some (certFile, keyFile)),
      X509KeyPair = (\<lambda>certData keyData. Some (certData, keyData)),
      decodeClusterReq = (\<lambda>body. None),
      encodeConfig = (\<lambda>cls. ''{}'')\<rparr>"

definition sampleContext :: "string \<Rightarrow> string \<Rightarrow> Context" where
  "sampleContext name token =
     \<lparr>Context.Name = name,
      cluster =
        \<lparr>Cluster.Name = name,
         Cluster.Server = ''https://k8s.example:6443'',
         config = Some
           \<lparr>KubeCluster.Server = ''https://k8s.example:6443'',
            KubeCluster.InsecureSkipTLSVerify = False,
            KubeCluster.CertificateAuthorityData = Some ''PEM''\<rparr>,
         Cluster.Metadata = '''',
         ProxyURL = ''''\<rparr>,
      authInfo = Some
        \<lparr>ClientCertificate = '''', ClientCertificateData = None, ClientKey = '''',
         ClientKeyData = None, Token = token\<rparr>\<rparr>"

definition sampleProxy :: ReverseProxy where
  "sampleProxy =
     \<lparr>target = \<lparr>Scheme = ''https'', url.Host = ''k8s.example:6443'', Path = ''''\<rparr>,
      Transport = Some
        \<lparr>Proxy = NilProxyFunc,
         TLSClientConfig =
           \<lparr>InsecureSkipVerify = True, RootCAs = [''PEM''], Certificates = []\<rparr>\<rparr>\<rparr>"

definition sampleConfig :: HeadlampConfig where
  "sampleConfig =
     \<lparr>useInCluster = False, devMode = False, insecure = False, kubeConfigPath = '''',
      port = 4466, staticDir = '''', pluginDir = '''', oidcClientID = '''',
      oidcClientSecret = '''', oidcScopes = [], oidcIdpIssuerURL = '''', baseURL = '''',
      contextProxies =
        [''static'' \<mapsto>
           \<lparr>context = sampleContext ''static'' ''tok'', proxy = Some sampleProxy,
            source = KubeConfig\<rparr>,
         ''dyn'' \<mapsto>
           \<lparr>context = sampleContext ''dyn'' '''', proxy = Some sampleProxy,
            source = DynamicCluster\<rparr>],
      proxyURLs = [''https://good.example/api'']\<rparr>"

definition sampleServer :: server_state where
  "sampleServer =
     \<lparr>headlampConfig = sampleConfig, pluginListURLs = None, oauthRequestMap = Map.empty,
      relayed = [], delivered = []\<rparr>"

definition sampleRequest :: "header \<Rightarrow> (string \<rightharpoonup> string) \<Rightarrow> (string \<rightharpoonup> string list) \<Rightarrow> Request" where
  "sampleRequest h vs q =
     \<lparr>Method = ''GET'', Host = ''localhost:4466'',
      URL = \<lparr>Scheme = '''', url.Host = '''', Path = ''/''\<rparr>,
      RequestURI = ''/'', Header = h, Body = ''{}'', TLS = False, vars = vs, query = q\<rparr>"

text \<open>Base64 with the standard alphabet and padding, on bytes.\<close>

definition b64alphabet :: string where
  "b64alphabet = ''ABCDEFGHIJKLMNOPQRSTUVWXYZabcdefghijklmnopqrstuvwxyz0123456789+/''"

fun b64encode :: "nat list \<Rightarrow> string" where
  "b64encode [] = []"
| "b64encode [a] =
     [b64alphabet ! (a div 4), b64alphabet ! ((a mod 4) * 16), CHR ''='', CHR ''='']"
| "b64encode [a, b] =
     [b64alphabet ! (a div 4), b64alphabet ! ((a mod 4) * 16 + b div 16),
      b64alphabet ! ((b mod 16) * 4), CHR ''='']"
| "b64encode (a # b # c # rest) =
     [b64alphabet ! (a div 4), b64alphabet ! ((a mod 4) * 16 + b div 16),
      b64alphabet ! ((b mod 16) * 4 + c div 64), b64alphabet ! (c mod 64)] @ b64encode rest"

fun b64value :: "char \<Rightarrow> string \<Rightarrow> nat option" where
  "b64value c [] = None"
| "b64value c (a # as) =
     (if c = a then Some 0 else (case b64value c as of None \<Rightarrow> None | Some k \<Rightarrow> Some (Suc k)))"

fun b64decode :: "string \<Rightarrow> nat list option" where
  "b64decode [] = Some []"
| "b64decode (a # b # c # d # rest) =
     (case (b64value a b64alphabet, b64value b b64alphabet) of
        (Some x, Some y) \<Rightarrow>
          if rest = [] \<and> c = CHR ''='' \<and> d = CHR ''='' then Some [x * 4 + y div 16]
          else (case b64value c b64alphabet of
                  None \<Rightarrow> None
                | Some z \<Rightarrow>
                    if rest = [] \<and> d = CHR ''=''
                    then Some [x * 4 + y div 16, (y mod 16) * 16 + z div 4]
                    else (case (b64value d b64alphabet, b64decode rest) of
                            (Some v, Some others) \<Rightarrow>
                              Some ([x * 4 + y div 16, (y mod 16) * 16 + z div 4,
                                     (z mod 4) * 64 + v] @ others)
                          | _ \<Rightarrow> None))
      | _ \<Rightarrow> None)"
| "b64decode _ = None"

definition sampleOidc :: oidc_env where
  "sampleOidc =
     \<lparr>GetClusterOidcConfig =
        (\<lambda>cl. if cl = ''c1''
              then Inr \<lparr>OidcConfig.ClientID = ''headlamp'',
                        OidcConfig.ClientSecret = ''secret'',
                        IdpIssuerURL = ''https://idp.example'',
                        OidcConfig.Scopes = [''email'']\<rparr>
              else Inl ''no oidc config''),
      oidc_NewProvider = (\<lambda>ctx issuer. Inr issuer),
      provider_Endpoint = (\<lambda>provider. provider @ ''/authorize''),
      AuthCodeURL = (\<lambda>cfg state. Endpoint cfg @ ''?state='' @ state),
      EncodeToString = (\<lambda>s. b64encode (map of_char s)),
      DecodeString =
        (\<lambda>s. case b64decode s of
                Some bs \<Rightarrow> (map char_of bs, None)
              | None \<Rightarrow> ('''', Some ''illegal base64 data'')),
      Exchange = (\<lambda>cfg code. if code = '''' then Inl ''invalid_grant'' else Inr (''token-'' @ code)),
      Extra_id_token = (\<lambda>tok. Some tok),
      Verify = (\<lambda>cfg raw. Inr raw),
      Claims = (\<lambda>tok. None)\<rparr>"

text \<open>
  The two requests of a flow for cluster \<open>c1\<close>: the login, and the provider's redirect back
  with the state token and a code.
\<close>

definition sampleLogin :: Request where
  "sampleLogin = sampleRequest Map.empty Map.empty [''cluster'' \<mapsto> [''c1'']]"

definition sampleCallback :: Request where
  "sampleCallback =
     sampleRequest Map.empty Map.empty [''state'' \<mapsto> [''YzE=''], ''code'' \<mapsto> [''abc'']]"

section \<open>Facts about the session index\<close>

lemma findID_None_iff: "findID i l = None \<longleftrightarrow> i \<notin> ID ` set l"
  by (induction l) (auto split: option.splits)

lemma findID_Some_bound: "findID i l = Some k \<Longrightarrow> k < length l"
  by (induction l arbitrary: k) (auto split: if_splits option.splits)

lemma findID_Some_hit: "findID i l = Some k \<Longrightarrow> ID (l ! k) = i"
  by (induction l arbitrary: k) (auto split: if_splits option.splits)





lemma map_ID_update: "k < length l \<Longrightarrow> ID p = ID (l ! k) \<Longrightarrow> map ID (l[k := p]) = map ID l"
  by (simp add: map_update list_update_same_conv)


lemma delete_keeps_distinct:
  assumes "distinct (map ID l)"
  shows "distinct (map ID (take k l @ drop (k + 1) l))"
proof -
  have "map ID (take k l @ drop (k + 1) l) = take k (map ID l) @ drop (k + 1) (map ID l)"
    by (simp add: take_map drop_map)
  moreover have "set (take k (map ID l)) \<inter> set (drop (k + 1) (map ID l)) = {}"
    using assms by (simp add: set_take_disj_set_drop_if_distinct)
  ultimately show ?thesis
    using assms by (simp add: distinct_take distinct_drop del: map_append)
qed

lemma getList_store_other:
  "c \<noteq> Cluster p \<Longrightarrow> getPortForwardList (portforwardstore pfs p) c = getPortForwardList pfs c"
  by (simp add: portforwardstore_def getPortForwardList_def Let_def split: option.splits)

lemma getList_store_hit:
  "findID (ID p) (getPortForwardList pfs (Cluster p)) = Some k \<Longrightarrow>
   getPortForwardList (portforwardstore pfs p) (Cluster p) = (getPortForwardList pfs (Cluster p))[k := p]"
  by (simp add: portforwardstore_def getPortForwardList_def Let_def split: option.splits)

lemma getList_store_miss:
  "findID (ID p) (getPortForwardList pfs (Cluster p)) = None \<Longrightarrow>
   getPortForwardList (portforwardstore pfs p) (Cluster p) = getPortForwardList pfs (Cluster p) @ [p]"
  by (simp add: portforwardstore_def getPortForwardList_def Let_def split: option.splits)

section \<open>Upsert by id (C6)\<close>

text \<open>
  Claim C6. For every per-target session list that already holds a session with id \<open>i\<close>,
  storing a record with the same id replaces that entry in place (the list is the old one
  updated at the position of that entry) and the number of sessions of the target does not
  change; storing a record whose id is not in the list appends it; in both cases ids that
  were pairwise different stay so, and the lists of the other targets are untouched.
\<close>

theorem portforwardstore_upsert:
  "(ID p \<in> ID ` set (getPortForwardList pfs (Cluster p)) \<longrightarrow>
      (\<exists>k < length (getPortForwardList pfs (Cluster p)).
          ID (getPortForwardList pfs (Cluster p) ! k) = ID p \<and>
          getPortForwardList (portforwardstore pfs p) (Cluster p) =
            (getPortForwardList pfs (Cluster p))[k := p]) \<and>
      length (getPortForwardList (portforwardstore pfs p) (Cluster p)) =
        length (getPortForwardList pfs (Cluster p))) \<and>
   (ID p \<notin> ID ` set (getPortForwardList pfs (Cluster p)) \<longrightarrow>
      getPortForwardList (portforwardstore pfs p) (Cluster p) =
        getPortForwardList pfs (Cluster p) @ [p]) \<and>
   (distinct (map ID (getPortForwardList pfs (Cluster p))) \<longrightarrow>
      distinct (map ID (getPortForwardList (portforwardstore pfs p) (Cluster p)))) \<and>
   (\<forall>c. c \<noteq> Cluster p \<longrightarrow>
      getPortForwardList (portforwardstore pfs p) c = getPortForwardList pfs c)"
proof -
  let ?l = "getPortForwardList pfs (Cluster p)"
  let ?l' = "getPortForwardList (portforwardstore pfs p) (Cluster p)"
  show ?thesis
  proof (cases "findID (ID p) ?l")
    case None
    then have fresh: "ID p \<notin> ID ` set ?l" by (simp add: findID_None_iff)
    have app: "?l' = ?l @ [p]" using None by (rule getList_store_miss)
    have "distinct (map ID ?l) \<longrightarrow> distinct (map ID ?l')"
      using fresh app by auto
    with fresh app show ?thesis by (simp add: getList_store_other)
  next
    case (Some k)
    have k: "k < length ?l" using Some by (rule findID_Some_bound)
    have hit: "ID (?l ! k) = ID p" using Some by (rule findID_Some_hit)
    have upd: "?l' = ?l[k := p]" using Some by (rule getList_store_hit)
    have mem: "ID p \<in> ID ` set ?l" using k hit by (metis imageI nth_mem)
    have "map ID ?l' = map ID ?l" using upd k hit by (simp add: map_ID_update)
    then have d: "distinct (map ID ?l) \<longrightarrow> distinct (map ID ?l')" by simp
    have len: "length ?l' = length ?l" using upd by simp
    have ex: "\<exists>k < length ?l. ID (?l ! k) = ID p \<and> ?l' = ?l[k := p]"
      using k hit upd by blast
    show ?thesis using mem ex len d by (simp add: getList_store_other)
  qed
qed

text \<open>
  The theorem at the sample index: a record with the id \<open>s1\<close> of the stored session
  replaces it, one with the new id \<open>s2\<close> is appended.
\<close>

theorem portforwardstore_upsert_witness:
  "ID (sampleSession\<lparr>Port := ''9001''\<rparr>)
     \<in> ID ` set (getPortForwardList (portForwards sampleTunnels) ''c1'') \<and>
   getPortForwardList
     (portforwardstore (portForwards sampleTunnels) (sampleSession\<lparr>Port := ''9001''\<rparr>)) ''c1''
     = [sampleSession\<lparr>Port := ''9001''\<rparr>] \<and>
   length (getPortForwardList
     (portforwardstore (portForwards sampleTunnels) (sampleSession\<lparr>Port := ''9001''\<rparr>)) ''c1'')
     = length (getPortForwardList (portForwards sampleTunnels) ''c1'') \<and>
   ID (sampleSession\<lparr>ID := ''s2''\<rparr>)
     \<notin> ID ` set (getPortForwardList (portForwards sampleTunnels) ''c1'') \<and>
   getPortForwardList
     (portforwardstore (portForwards sampleTunnels) (sampleSession\<lparr>ID := ''s2''\<rparr>)) ''c1''
     = [sampleSession, sampleSession\<lparr>ID := ''s2''\<rparr>] \<and>
   distinct (map ID (getPortForwardList
     (portforwardstore (portForwards sampleTunnels) (sampleSession\<lparr>ID := ''s2''\<rparr>)) ''c1''))"
  using portforwardstore_upsert [of "sampleSession\<lparr>Port := ''9001''\<rparr>" "portForwards sampleTunnels"]
        portforwardstore_upsert [of "sampleSession\<lparr>ID := ''s2''\<rparr>" "portForwards sampleTunnels"]
  by (simp add: sampleTunnels_def sampleSession_def samplePayload_def portForwardToStore_def
        getPortForwardList_def)

section \<open>Deleting a target (C5, C10)\<close>

lemma statusCode_http_Error_new [simp]:
  "statusCode (http_Error newResponseWriter msg code) = Some code"
  by (simp add: http_Error_def Write_def WriteHeader_def newResponseWriter_def Let_def)

lemma statusCode_getConfig_new [simp]:
  "statusCode (getConfig k c newResponseWriter) = Some StatusOK"
  by (simp add: getConfig_def Write_def WriteHeader_def newResponseWriter_def Let_def)

text \<open>
  Claim C5. For every registry and name \<open>n\<close> (the route variable of the request):
  \<^verbatim>\<open>DELETE /cluster/{n}\<close> answers 404 when \<open>n\<close> is not registered; answers 403 and leaves
  the registry as it was when \<open>n\<close> is registered with a source other than
  \<^verbatim>\<open>DynamicCluster\<close>; and when \<open>n\<close> is registered as \<^verbatim>\<open>DynamicCluster\<close> it removes \<open>n\<close>
  (answering 200 with the configuration), so that the same request made again answers
  404.
\<close>

theorem deleteCluster_responses:
  "(contextProxies c (muxVar r ''name'') = None \<longrightarrow>
      fst (deleteCluster k c r newResponseWriter) = c \<and>
      statusCode (snd (deleteCluster k c r newResponseWriter)) = Some StatusNotFound) \<and>
   (\<forall>cp. contextProxies c (muxVar r ''name'') = Some cp \<and> source cp \<noteq> DynamicCluster \<longrightarrow>
      fst (deleteCluster k c r newResponseWriter) = c \<and>
      statusCode (snd (deleteCluster k c r newResponseWriter)) = Some StatusForbidden) \<and>
   (\<forall>cp. contextProxies c (muxVar r ''name'') = Some cp \<and> source cp = DynamicCluster \<longrightarrow>
      contextProxies (fst (deleteCluster k c r newResponseWriter)) (muxVar r ''name'') = None \<and>
      statusCode (snd (deleteCluster k c r newResponseWriter)) = Some StatusOK \<and>
      statusCode (snd (deleteCluster k (fst (deleteCluster k c r newResponseWriter)) r
                         newResponseWriter)) = Some StatusNotFound)"
  by (simp add: deleteCluster_def Let_def)

text \<open>
  The theorem at the sample registry: an unknown name, the target from the kubeconfig and
  the target added at run time, deleted twice.
\<close>

theorem deleteCluster_responses_witness:
  "contextProxies sampleConfig ''nobody'' = None \<and>
   deleteCluster sampleKube sampleConfig (sampleRequest Map.empty [''name'' \<mapsto> ''nobody''] Map.empty)
       newResponseWriter
     = (sampleConfig, http_Error newResponseWriter ''Cluster not found'' 404) \<and>
   map_option source (contextProxies sampleConfig ''static'') = Some KubeConfig \<and>
   fst (deleteCluster sampleKube sampleConfig
          (sampleRequest Map.empty [''name'' \<mapsto> ''static''] Map.empty) newResponseWriter)
     = sampleConfig \<and>
   statusCode (snd (deleteCluster sampleKube sampleConfig
          (sampleRequest Map.empty [''name'' \<mapsto> ''static''] Map.empty) newResponseWriter))
     = Some 403 \<and>
   map_option source (contextProxies sampleConfig ''dyn'') = Some DynamicCluster \<and>
   contextProxies (fst (deleteCluster sampleKube sampleConfig
          (sampleRequest Map.empty [''name'' \<mapsto> ''dyn''] Map.empty) newResponseWriter)) ''dyn''
     = None \<and>
   statusCode (snd (deleteCluster sampleKube sampleConfig
          (sampleRequest Map.empty [''name'' \<mapsto> ''dyn''] Map.empty) newResponseWriter))
     = Some 200 \<and>
   statusCode (snd (deleteCluster sampleKube
          (fst (deleteCluster sampleKube sampleConfig
                  (sampleRequest Map.empty [''name'' \<mapsto> ''dyn''] Map.empty) newResponseWriter))
          (sampleRequest Map.empty [''name'' \<mapsto> ''dyn''] Map.empty) newResponseWriter))
     = Some 404"
  using deleteCluster_responses [of sampleConfig
          "sampleRequest Map.empty [''name'' \<mapsto> ''nobody''] Map.empty" sampleKube]
        deleteCluster_responses [of sampleConfig
          "sampleRequest Map.empty [''name'' \<mapsto> ''static''] Map.empty" sampleKube]
        deleteCluster_responses [of sampleConfig
          "sampleRequest Map.empty [''name'' \<mapsto> ''dyn''] Map.empty" sampleKube]
  by (simp add: sampleConfig_def sampleRequest_def muxVar_def deleteCluster_def Let_def
        KubeConfig_def DynamicCluster_def StatusNotFound_def StatusForbidden_def StatusOK_def)

text \<open>
  Claim C10. A successful delete of target \<open>n\<close> changes only the entry keyed \<open>n\<close>: the
  entry of every other name (its context, its proxy handler and its source tag) is the
  same before and after, and nothing else of the configuration changes.
\<close>

theorem deleteCluster_frame:
  "contextProxies c (muxVar r ''name'') = Some cp \<Longrightarrow> source cp = DynamicCluster \<Longrightarrow>
   (\<forall>n. n \<noteq> muxVar r ''name'' \<longrightarrow>
      contextProxies (fst (deleteCluster k c r w)) n = contextProxies c n) \<and>
   fst (deleteCluster k c r w) =
     c\<lparr>contextProxies := (contextProxies c)(muxVar r ''name'' := None)\<rparr>"
  by (simp add: deleteCluster_def Let_def)

text \<open>
  The theorem at the sample registry: deleting \<open>dyn\<close> leaves the entry of \<open>static\<close>.
\<close>

theorem deleteCluster_frame_witness:
  "map_option source (contextProxies sampleConfig ''dyn'') = Some DynamicCluster \<and>
   contextProxies (fst (deleteCluster sampleKube sampleConfig
          (sampleRequest Map.empty [''name'' \<mapsto> ''dyn''] Map.empty) newResponseWriter)) ''static''
     = Some \<lparr>context = sampleContext ''static'' ''tok'', proxy = Some sampleProxy,
             source = KubeConfig\<rparr> \<and>
   contextProxies (fst (deleteCluster sampleKube sampleConfig
          (sampleRequest Map.empty [''name'' \<mapsto> ''dyn''] Map.empty) newResponseWriter)) ''static''
     = contextProxies sampleConfig ''static''"
  using deleteCluster_frame [of sampleConfig
          "sampleRequest Map.empty [''name'' \<mapsto> ''dyn''] Map.empty"
          "\<lparr>context = sampleContext ''dyn'' '''', proxy = Some sampleProxy,
            source = DynamicCluster\<rparr>" sampleKube newResponseWriter]
  by (simp add: sampleConfig_def sampleRequest_def muxVar_def)

section \<open>The token of \<^verbatim>\<open>POST /portforward\<close> (C9)\<close>

lemma splitFrom_no_sep:
  "sep \<noteq> [] \<Longrightarrow> \<not> sublist sep s \<Longrightarrow> splitFrom sep cur s = [cur @ s]"
proof (induction s arbitrary: cur)
  case Nil
  then show ?case by simp
next
  case (Cons c cs)
  have np: "\<not> prefix sep (c # cs)"
    using Cons.prems(2) prefix_imp_sublist by blast
  have ns: "\<not> sublist sep cs"
    using Cons.prems(2) by (meson sublist_Cons_right)
  have "splitFrom sep (cur @ [c]) cs = [(cur @ [c]) @ cs]"
    using Cons.IH [OF Cons.prems(1) ns] .
  then show ?case using np by simp
qed

lemma bearerToken_no_Bearer:
  "reqToken \<noteq> '''' \<Longrightarrow> \<not> sublist ''Bearer '' reqToken \<Longrightarrow>
   bearerToken reqToken = Inl (Panic ''index out of range'')"
  by (simp add: bearerToken_def strings_Split_def splitFrom_no_sep sliceIndex_def Let_def)

text \<open>
  Claim C9 reads: for every value of the \<^verbatim>\<open>Authorization\<close> header, also a non-empty one
  without the text \<^verbatim>\<open>"Bearer "\<close>, reading the second element of the split never indexes
  out of range. The code does otherwise. The guard is
  \<^verbatim>\<open>reqToken != "" || len(splitToken) > 2\<close>, which holds for every non-empty header; a
  header without \<^verbatim>\<open>"Bearer "\<close> splits into one piece, and \<^verbatim>\<open>splitToken[1]\<close> is then
  out of range. The theorem: for a request whose body decodes and whose
  \<^verbatim>\<open>Authorization\<close> header is non-empty and does not contain \<^verbatim>\<open>"Bearer "\<close>, the handler
  ends in the index-out-of-range panic.
\<close>

theorem portforwardPOST_token_panics:
  "decode (Body r) = Inr p0 \<Longrightarrow>
   headerGet (Header r) ''Authorization'' \<noteq> '''' \<Longrightarrow>
   \<not> sublist ''Bearer '' (headerGet (Header r) ''Authorization'') \<Longrightarrow>
   portforwardPOST decode uuid w r = Inl (Panic ''index out of range'')"
  by (simp add: portforwardPOST_def bearerToken_no_Bearer Let_def)

text \<open>
  The theorem at the header \<^verbatim>\<open>Authorization: Basic abc\<close>.
\<close>

theorem portforwardPOST_token_panics_witness:
  "headerGet [''Authorization'' \<mapsto> [''Basic abc'']] ''Authorization'' = ''Basic abc'' \<and>
   strings_Split ''Basic abc'' ''Bearer '' = [''Basic abc''] \<and>
   portforwardPOST (\<lambda>body. Inr samplePayload) ''uuid''  newResponseWriter
     (sampleRequest [''Authorization'' \<mapsto> [''Basic abc'']] Map.empty Map.empty)
     = Inl (Panic ''index out of range'')"
  using portforwardPOST_token_panics [of "\<lambda>body. Inr samplePayload"
          "sampleRequest [''Authorization'' \<mapsto> [''Basic abc'']] Map.empty Map.empty"
          samplePayload "''uuid''" newResponseWriter]
  by (simp add: sampleRequest_def headerGet_def sublist_code strings_Split_def)

section \<open>The TLS configuration of a target's proxy (C2)\<close>

text \<open>
  Claim C2 reads: the proxy built for a target verifies the upstream certificate against
  the target's CA bundle whenever verification is not disabled, that is,
  \<^verbatim>\<open>InsecureSkipVerify\<close> is set if and only if verification is disabled. The code does
  otherwise: it stores the local \<^verbatim>\<open>shouldVerifyTLS\<close> in \<^verbatim>\<open>InsecureSkipVerify\<close> as it
  is. The theorem: whenever \<^verbatim>\<open>createProxyForContext\<close> returns a proxy, the flag
  \<^verbatim>\<open>InsecureSkipVerify\<close> of its TLS configuration equals
  \<^verbatim>\<open>!c.insecure || cluster.shouldVerifyTLS()\<close>, and the pool of root certificates holds
  the target's CA data exactly when that value is true.
\<close>

theorem createProxyForContext_tls:
  "createProxyForContext n k c ctx = Inr p \<Longrightarrow>
   \<exists>t. Transport p = Some t \<and>
       InsecureSkipVerify (TLSClientConfig t) =
         (\<not> insecure c \<or> shouldVerifyTLS k (cluster ctx)) \<and>
       (if \<not> insecure c \<or> shouldVerifyTLS k (cluster ctx)
        then \<exists>ca. getCAData k (cluster ctx) = Inr ca \<and> RootCAs (TLSClientConfig t) = [ca]
        else RootCAs (TLSClientConfig t) = [])"
  by (auto simp: createProxyForContext_def Let_def split: option.splits sum.splits if_splits)

text \<open>
  The theorem at a target with a CA bundle whose flag for skipping verification is clear,
  the server not being in insecure mode: the proxy is built with
  \<^verbatim>\<open>InsecureSkipVerify\<close> set.
\<close>

theorem createProxyForContext_tls_witness:
  "createProxyForContext sampleNet sampleKube sampleConfig (sampleContext ''static'' ''tok'')
     = Inr sampleProxy \<and>
   insecure sampleConfig = False \<and>
   shouldVerifyTLS sampleKube (cluster (sampleContext ''static'' ''tok'')) = True \<and>
   map_option (\<lambda>t. InsecureSkipVerify (TLSClientConfig t)) (Transport sampleProxy) = Some True \<and>
   map_option (\<lambda>t. RootCAs (TLSClientConfig t)) (Transport sampleProxy) = Some [''PEM'']"
proof -
  have run: "createProxyForContext sampleNet sampleKube sampleConfig (sampleContext ''static'' ''tok'')
     = Inr sampleProxy"
    by (simp add: createProxyForContext_def sampleNet_def sampleKube_def sampleConfig_def
          sampleContext_def sampleProxy_def sampleParse_def certsFromFiles_def certsFromData_def
          getTransportProxy_def Let_def)
  show ?thesis
    using createProxyForContext_tls [OF run] run
    by (auto simp: sampleConfig_def sampleKube_def sampleContext_def)
qed

section \<open>Closing a session (C7)\<close>










section \<open>The watchdog and a pod that stopped running (C4)\<close>









section \<open>The outbound relay and its allow-list (C1)\<close>

lemma matchProxyURLs_False_iff:
  "matchProxyURLs n ps u = Inr False \<longleftrightarrow>
     (\<forall>p \<in> set ps. \<exists>g. glob_Compile n p = Some g \<and> \<not> g u)"
  by (induction ps) (auto split: option.splits)

lemma statusCode_WriteHeader_set:
  "statusCode w = Some code \<Longrightarrow> statusCode (WriteHeader w code') = Some code"
  by (simp add: WriteHeader_def)

lemma statusCode_Write_set:
  "statusCode w = Some code \<Longrightarrow> statusCode (Write w chunk) = Some code"
  by (simp add: Write_def WriteHeader_def Let_def)

text \<open>
  Claim C1 reads: when the URL of the \<^verbatim>\<open>proxy-to\<close> header matches none of the
  configured patterns, the handler answers 400 and does not relay the request. The code
  does otherwise: after \<^verbatim>\<open>http.Error\<close> it does not return, so the reverse proxy for
  that URL is built and served all the same. The theorem: when the header parses to a URL
  and every configured pattern compiles and does not match it, the handler answers 400
  and hands the request, rewritten to that URL, to a reverse proxy for it; when the
  proxy's transport gets through to the URL the request is delivered there, and when the
  transport fails (as it does for a URL without scheme or host) nothing is delivered.
\<close>

theorem externalproxy_relays_unmatched:
  "url_Parse n (headerGet (Header r) ''Proxy-To'') = Some u \<Longrightarrow>
   \<forall>p \<in> set (proxyURLs (headlampConfig s)).
      \<exists>g. glob_Compile n p = Some g \<and> \<not> g (url_String n u) \<Longrightarrow>
   r' = r\<lparr>Host := url.Host u,
          URL := (URL r)\<lparr>url.Host := url.Host u, Scheme := Scheme u\<rparr>,
          RequestURI := url_RequestURI n u\<rparr> \<Longrightarrow>
   (\<forall>code body. roundTrip n \<lparr>target = u, Transport = None\<rparr> r' = Inr (code, body) \<longrightarrow>
      (\<exists>s' w'. externalproxy n s newResponseWriter r = Inr (s', w') \<and>
         statusCode w' = Some StatusBadRequest \<and>
         relayed s' = relayed s @ [(\<lparr>target = u, Transport = None\<rparr>, r')] \<and>
         delivered s' = delivered s @ [(\<lparr>target = u, Transport = None\<rparr>, r')])) \<and>
   (\<forall>err. roundTrip n \<lparr>target = u, Transport = None\<rparr> r' = Inl err \<longrightarrow>
      (\<exists>s' w'. externalproxy n s newResponseWriter r = Inr (s', w') \<and>
         statusCode w' = Some StatusBadRequest \<and>
         relayed s' = relayed s @ [(\<lparr>target = u, Transport = None\<rparr>, r')] \<and>
         delivered s' = delivered s))"
proof -
  assume parse: "url_Parse n (headerGet (Header r) ''Proxy-To'') = Some u"
    and nomatch: "\<forall>p \<in> set (proxyURLs (headlampConfig s)).
      \<exists>g. glob_Compile n p = Some g \<and> \<not> g (url_String n u)"
    and r': "r' = r\<lparr>Host := url.Host u,
          URL := (URL r)\<lparr>url.Host := url.Host u, Scheme := Scheme u\<rparr>,
          RequestURI := url_RequestURI n u\<rparr>"
  have m: "matchProxyURLs n (proxyURLs (headlampConfig s)) (url_String n u) = Inr False"
    using nomatch by (simp add: matchProxyURLs_False_iff)
  have st: "statusCode (http_Error newResponseWriter ''no allowed proxy url match, request denied ''
              StatusBadRequest) = Some StatusBadRequest"
    by simp
  show ?thesis
    using parse m r' st
    by (simp add: externalproxy_def ServeHTTP_def Let_def
          statusCode_Write_set statusCode_WriteHeader_set)
qed

text \<open>
  The theorem at the allow-list of the sample configuration. With the header
  \<^verbatim>\<open>proxy-to: https://evil.example/steal\<close> the status is 400 and the request, with its
  body, has been delivered to that host. With \<^verbatim>\<open>proxy-to: evil.example\<close>, which parses
  to a path with no scheme and no host, the status is 400 and nothing has been delivered.
\<close>

theorem externalproxy_relays_unmatched_witness:
  "proxyURLs (headlampConfig sampleServer) = [''https://good.example/api''] \<and>
   map_sum id
     (\<lambda>(s', w'). (statusCode w',
        map (\<lambda>(p, q). (target p, Request.Host q, Body q)) (delivered s')))
     (externalproxy sampleNet sampleServer newResponseWriter
        (sampleRequest [''Proxy-To'' \<mapsto> [''https://evil.example/steal'']] Map.empty Map.empty))
     = Inr (Some 400,
            [(\<lparr>Scheme = ''https'', url.Host = ''evil.example'', Path = ''/steal''\<rparr>,
              ''evil.example'', ''{}'')]) \<and>
   map_sum id
     (\<lambda>(s', w'). (statusCode w',
        map (\<lambda>(p, q). (target p, Request.Host q, Body q)) (delivered s')))
     (externalproxy sampleNet sampleServer newResponseWriter
        (sampleRequest [''Proxy-To'' \<mapsto> [''evil.example'']] Map.empty Map.empty))
     = Inr (Some 400, [])"
  using externalproxy_relays_unmatched [of sampleNet
          "sampleRequest [''Proxy-To'' \<mapsto> [''https://evil.example/steal'']] Map.empty Map.empty"
          "\<lparr>Scheme = ''https'', url.Host = ''evil.example'', Path = ''/steal''\<rparr>" sampleServer]
        externalproxy_relays_unmatched [of sampleNet
          "sampleRequest [''Proxy-To'' \<mapsto> [''evil.example'']] Map.empty Map.empty"
          "\<lparr>Scheme = '''', url.Host = '''', Path = ''evil.example''\<rparr>" sampleServer]
  by (auto simp: sampleServer_def sampleConfig_def sampleNet_def sampleRequest_def
        sampleParse_def sampleString_def sampleRequestURI_def sampleRoundTrip_def
        headerGet_def StatusBadRequest_def)

section \<open>The bearer token of a proxied request (C8)\<close>





section \<open>The pending authorization flows (C3)\<close>

lemma sample_encode_c1: "EncodeToString sampleOidc ''c1'' = ''YzE=''"
  by (simp add: sampleOidc_def b64alphabet_def)

lemma sample_decode_c1: "DecodeString sampleOidc ''YzE='' = (''c1'', None)"
  by (simp add: sampleOidc_def b64alphabet_def char_of_def bit_0)

lemma statusCode_http_Redirect_new [simp]:
  "statusCode (http_Redirect newResponseWriter location code) = Some code"
  by (simp add: http_Redirect_def WriteHeader_def newResponseWriter_def)

lemma oidcCallback_state: "fst (oidcCallback e s w r) = s"
  by (simp add: oidcCallback_def Let_def split_beta split: option.splits)

lemma oidcCallbackFound_status:
  "statusCode (oidcCallbackFound e s newResponseWriter r cfg decoded)
     \<in> {Some StatusSeeOther, Some StatusInternalServerError}"
  by (simp add: oidcCallbackFound_def split: sum.splits option.splits)

lemma oidcCallback_unknown:
  "queryGet r ''state'' = '''' \<or> oauthRequestMap s (queryGet r ''state'') = None \<Longrightarrow>
   statusCode (snd (oidcCallback e s newResponseWriter r)) = Some StatusBadRequest"
  by (auto simp: oidcCallback_def Let_def split_beta statusCode_Write_set http_Error_def
        WriteHeader_def newResponseWriter_def split: option.splits)

lemma oidcCallback_known:
  "queryGet r ''state'' \<noteq> '''' \<Longrightarrow> oauthRequestMap s (queryGet r ''state'') = Some cfg \<Longrightarrow>
   snd (DecodeString e (queryGet r ''state'')) = None \<Longrightarrow>
   snd (oidcCallback e s newResponseWriter r) =
     oidcCallbackFound e s newResponseWriter r cfg (fst (DecodeString e (queryGet r ''state'')))"
  by (simp add: oidcCallback_def Let_def split_beta)

lemma oidc_stores:
  "GetClusterOidcConfig e (queryGet r ''cluster'') = Inr oc \<Longrightarrow>
   oidc_NewProvider e (if insecure (headlampConfig s) then InsecureClientContext else Background)
     (IdpIssuerURL oc) = Inr pr \<Longrightarrow>
   oauthRequestMap (fst (oidc e s w r)) (EncodeToString e (queryGet r ''cluster'')) \<noteq> None"
  by (simp add: oidc_def Let_def)

lemma sample_login:
  "oauthRequestMap (fst (oidc sampleOidc sampleServer newResponseWriter sampleLogin)) ''YzE='' \<noteq> None"
  using oidc_stores [of sampleOidc sampleLogin _ sampleServer _ newResponseWriter] sample_encode_c1
  by (simp add: sampleLogin_def sampleRequest_def queryGet_def sampleOidc_def sampleServer_def
        sampleConfig_def)

lemma sample_callback_status:
  "oauthRequestMap s ''YzE='' \<noteq> None \<Longrightarrow>
   statusCode (snd (oidcCallback sampleOidc s newResponseWriter sampleCallback)) = Some 303"
proof -
  assume "oauthRequestMap s ''YzE='' \<noteq> None"
  then obtain cfg where cfg: "oauthRequestMap s ''YzE='' = Some cfg" by auto
  have st: "queryGet sampleCallback ''state'' = ''YzE=''"
    and code: "queryGet sampleCallback ''code'' = ''abc''"
    by (simp_all add: sampleCallback_def sampleRequest_def queryGet_def)
  have "snd (oidcCallback sampleOidc s newResponseWriter sampleCallback) =
     oidcCallbackFound sampleOidc s newResponseWriter sampleCallback cfg ''c1''"
    using oidcCallback_known [of sampleCallback s cfg sampleOidc] cfg st sample_decode_c1 by simp
  moreover have "statusCode (oidcCallbackFound sampleOidc s newResponseWriter sampleCallback cfg ''c1'')
     = Some 303"
    using code by (simp add: oidcCallbackFound_def sampleOidc_def StatusSeeOther_def)
  ultimately show ?thesis by simp
qed

text \<open>
  Claim C3 reads: the pending entry of a state token is deleted on the first successful
  callback that presents it, so that a second callback with the same state finds no entry
  and gets 400; and a callback with a state never issued gets 400 and has no side effect.
  The first half fails on the code: the callback handler never removes an entry. At the
  sample flow for cluster \<open>c1\<close> the first callback succeeds (303), the entry of its state
  is still in the map afterwards, and the same callback made again is answered 303, not
  400.
\<close>

theorem oidcCallback_replay_counterexample:
  "statusCode (snd (oidcCallback sampleOidc
       (fst (oidc sampleOidc sampleServer newResponseWriter sampleLogin))
       newResponseWriter sampleCallback)) = Some 303 \<and>
   oauthRequestMap (fst (oidcCallback sampleOidc
       (fst (oidc sampleOidc sampleServer newResponseWriter sampleLogin))
       newResponseWriter sampleCallback)) (queryGet sampleCallback ''state'') \<noteq> None \<and>
   statusCode (snd (oidcCallback sampleOidc
       (fst (oidcCallback sampleOidc
              (fst (oidc sampleOidc sampleServer newResponseWriter sampleLogin))
              newResponseWriter sampleCallback))
       newResponseWriter sampleCallback)) = Some 303 \<and>
   statusCode (snd (oidcCallback sampleOidc
       (fst (oidcCallback sampleOidc
              (fst (oidc sampleOidc sampleServer newResponseWriter sampleLogin))
              newResponseWriter sampleCallback))
       newResponseWriter sampleCallback)) \<noteq> Some 400"
proof -
  have st: "queryGet sampleCallback ''state'' = ''YzE=''"
    by (simp add: sampleCallback_def sampleRequest_def queryGet_def)
  show ?thesis
    using sample_login sample_callback_status st by (simp add: oidcCallback_state)
qed

text \<open>
  Claim C3, amended. A callback never changes the pending flows (nor anything else of the
  server's state): after any callback, successful or not, the entry of a state token is
  the one that was stored. A later callback with that state, when the state decodes, is
  taken through the flow with that entry: the code is exchanged with the stored
  configuration; a failed exchange, a token without \<^verbatim>\<open>id_token\<close>, a failed verification
  with the stored verifier or unreadable claims are each answered 500 with their message;
  and when all succeed the answer is 303 to the \<^verbatim>\<open>auth\<close> route with the decoded cluster
  name and the raw identity token. It is never rejected as unknown. A callback whose
  state is empty or has no pending entry is answered 400 and changes nothing.
  \<^verbatim>\<open>GET /oidc\<close>, when the provider is found, leaves an entry under the base64 text of
  the cluster name.
\<close>

theorem oidcCallback_keeps_pending_flow:
  "fst (oidcCallback e1 s w1 r1) = s \<and>
   (queryGet r1 ''state'' = '''' \<or> oauthRequestMap s (queryGet r1 ''state'') = None \<longrightarrow>
      statusCode (snd (oidcCallback e1 s newResponseWriter r1)) = Some StatusBadRequest) \<and>
   (\<forall>cfg decoded.
      queryGet r2 ''state'' \<noteq> '''' \<and> oauthRequestMap s (queryGet r2 ''state'') = Some cfg \<and>
      DecodeString e2 (queryGet r2 ''state'') = (decoded, None) \<longrightarrow>
        oauthRequestMap (fst (oidcCallback e1 s w1 r1)) (queryGet r2 ''state'') = Some cfg \<and>
        (\<forall>err. Exchange e2 cfg (queryGet r2 ''code'') = Inl err \<longrightarrow>
           snd (oidcCallback e2 (fst (oidcCallback e1 s w1 r1)) newResponseWriter r2) =
             http_Error newResponseWriter (''Failed to exchange token: '' @ err)
               StatusInternalServerError) \<and>
        (\<forall>tok. Exchange e2 cfg (queryGet r2 ''code'') = Inr tok \<and>
               Extra_id_token e2 tok = None \<longrightarrow>
           snd (oidcCallback e2 (fst (oidcCallback e1 s w1 r1)) newResponseWriter r2) =
             http_Error newResponseWriter ''No id_token field in oauth2 token.''
               StatusInternalServerError) \<and>
        (\<forall>tok raw err. Exchange e2 cfg (queryGet r2 ''code'') = Inr tok \<and>
               Extra_id_token e2 tok = Some raw \<and> Verify e2 cfg raw = Inl err \<longrightarrow>
           snd (oidcCallback e2 (fst (oidcCallback e1 s w1 r1)) newResponseWriter r2) =
             http_Error newResponseWriter (''Failed to verify ID Token: '' @ err)
               StatusInternalServerError) \<and>
        (\<forall>tok raw idt err. Exchange e2 cfg (queryGet r2 ''code'') = Inr tok \<and>
               Extra_id_token e2 tok = Some raw \<and> Verify e2 cfg raw = Inr idt \<and>
               Claims e2 idt = Some err \<longrightarrow>
           snd (oidcCallback e2 (fst (oidcCallback e1 s w1 r1)) newResponseWriter r2) =
             http_Error newResponseWriter err StatusInternalServerError) \<and>
        (\<forall>tok raw idt. Exchange e2 cfg (queryGet r2 ''code'') = Inr tok \<and>
               Extra_id_token e2 tok = Some raw \<and> Verify e2 cfg raw = Inr idt \<and>
               Claims e2 idt = None \<longrightarrow>
           snd (oidcCallback e2 (fst (oidcCallback e1 s w1 r1)) newResponseWriter r2) =
             http_Redirect newResponseWriter
               ((if devMode (headlampConfig s) then ''http://localhost:3000/'' else ''/'')
                @ ''auth?cluster='' @ padLeft 1 decoded @ ''&token='' @ padLeft 2 raw)
               StatusSeeOther)) \<and>
   (\<forall>oc pr.
      GetClusterOidcConfig e0 (queryGet r0 ''cluster'') = Inr oc \<and>
      oidc_NewProvider e0 (if insecure (headlampConfig s0) then InsecureClientContext else Background)
        (IdpIssuerURL oc) = Inr pr \<longrightarrow>
      oauthRequestMap (fst (oidc e0 s0 w0 r0)) (EncodeToString e0 (queryGet r0 ''cluster'')) \<noteq> None)"
proof -
  have keep: "fst (oidcCallback e1 s w1 r1) = s" by (rule oidcCallback_state)
  have unknown: "queryGet r1 ''state'' = '''' \<or> oauthRequestMap s (queryGet r1 ''state'') = None \<longrightarrow>
      statusCode (snd (oidcCallback e1 s newResponseWriter r1)) = Some StatusBadRequest"
    using oidcCallback_unknown by blast
  have known: "oauthRequestMap (fst (oidcCallback e1 s w1 r1)) (queryGet r2 ''state'') = Some cfg \<and>
        (\<forall>err. Exchange e2 cfg (queryGet r2 ''code'') = Inl err \<longrightarrow>
           snd (oidcCallback e2 (fst (oidcCallback e1 s w1 r1)) newResponseWriter r2) =
             http_Error newResponseWriter (''Failed to exchange token: '' @ err)
               StatusInternalServerError) \<and>
        (\<forall>tok. Exchange e2 cfg (queryGet r2 ''code'') = Inr tok \<and>
               Extra_id_token e2 tok = None \<longrightarrow>
           snd (oidcCallback e2 (fst (oidcCallback e1 s w1 r1)) newResponseWriter r2) =
             http_Error newResponseWriter ''No id_token field in oauth2 token.''
               StatusInternalServerError) \<and>
        (\<forall>tok raw err. Exchange e2 cfg (queryGet r2 ''code'') = Inr tok \<and>
               Extra_id_token e2 tok = Some raw \<and> Verify e2 cfg raw = Inl err \<longrightarrow>
           snd (oidcCallback e2 (fst (oidcCallback e1 s w1 r1)) newResponseWriter r2) =
             http_Error newResponseWriter (''Failed to verify ID Token: '' @ err)
               StatusInternalServerError) \<and>
        (\<forall>tok raw idt err. Exchange e2 cfg (queryGet r2 ''code'') = Inr tok \<and>
               Extra_id_token e2 tok = Some raw \<and> Verify e2 cfg raw = Inr idt \<and>
               Claims e2 idt = Some err \<longrightarrow>
           snd (oidcCallback e2 (fst (oidcCallback e1 s w1 r1)) newResponseWriter r2) =
             http_Error newResponseWriter err StatusInternalServerError) \<and>
        (\<forall>tok raw idt. Exchange e2 cfg (queryGet r2 ''code'') = Inr tok \<and>
               Extra_id_token e2 tok = Some raw \<and> Verify e2 cfg raw = Inr idt \<and>
               Claims e2 idt = None \<longrightarrow>
           snd (oidcCallback e2 (fst (oidcCallback e1 s w1 r1)) newResponseWriter r2) =
             http_Redirect newResponseWriter
               ((if devMode (headlampConfig s) then ''http://localhost:3000/'' else ''/'')
                @ ''auth?cluster='' @ padLeft 1 decoded @ ''&token='' @ padLeft 2 raw)
               StatusSeeOther)"
    if a: "queryGet r2 ''state'' \<noteq> '''' \<and> oauthRequestMap s (queryGet r2 ''state'') = Some cfg \<and>
      DecodeString e2 (queryGet r2 ''state'') = (decoded, None)"
    for cfg decoded
  proof -
    have run: "snd (oidcCallback e2 s newResponseWriter r2) =
        oidcCallbackFound e2 s newResponseWriter r2 cfg decoded"
      using a oidcCallback_known [of r2 s cfg e2] by simp
    show ?thesis
      using a by (simp add: oidcCallback_state run oidcCallbackFound_def)
  qed
  have issue: "GetClusterOidcConfig e0 (queryGet r0 ''cluster'') = Inr oc \<and>
      oidc_NewProvider e0 (if insecure (headlampConfig s0) then InsecureClientContext else Background)
        (IdpIssuerURL oc) = Inr pr \<longrightarrow>
      oauthRequestMap (fst (oidc e0 s0 w0 r0)) (EncodeToString e0 (queryGet r0 ''cluster'')) \<noteq> None"
    for oc pr
    using oidc_stores by blast
  show ?thesis
    apply (intro conjI allI)
    subgoal by (rule keep)
    subgoal by (rule unknown)
    subgoal for cfg decoded by (rule impI) (rule known)
    subgoal for oc pr by (rule issue)
    done
qed

text \<open>
  The theorem at the sample flow: the login stores the entry under the state the callback
  brings, the first callback keeps it, the callback made again is answered 303 with the
  token, the callback made again without a code is answered 500 by the failed exchange,
  and the callback without a login before it is answered 400.
\<close>

theorem oidcCallback_keeps_pending_flow_witness:
  "queryGet sampleCallback ''state'' = EncodeToString sampleOidc (queryGet sampleLogin ''cluster'') \<and>
   oauthRequestMap (fst (oidc sampleOidc sampleServer newResponseWriter sampleLogin))
     (queryGet sampleCallback ''state'') \<noteq> None \<and>
   fst (oidcCallback sampleOidc (fst (oidc sampleOidc sampleServer newResponseWriter sampleLogin))
          newResponseWriter sampleCallback)
     = fst (oidc sampleOidc sampleServer newResponseWriter sampleLogin) \<and>
   snd (oidcCallback sampleOidc
       (fst (oidcCallback sampleOidc
              (fst (oidc sampleOidc sampleServer newResponseWriter sampleLogin))
              newResponseWriter sampleCallback))
       newResponseWriter sampleCallback)
     = http_Redirect newResponseWriter ''/auth?cluster=c1&token=token-abc'' 303 \<and>
   snd (oidcCallback sampleOidc
       (fst (oidcCallback sampleOidc
              (fst (oidc sampleOidc sampleServer newResponseWriter sampleLogin))
              newResponseWriter sampleCallback))
       newResponseWriter (sampleRequest Map.empty Map.empty [''state'' \<mapsto> [''YzE='']]))
     = http_Error newResponseWriter ''Failed to exchange token: invalid_grant'' 500 \<and>
   oauthRequestMap sampleServer (queryGet sampleCallback ''state'') = None \<and>
   statusCode (snd (oidcCallback sampleOidc sampleServer newResponseWriter sampleCallback))
     = Some 400"
proof -
  let ?s1 = "fst (oidc sampleOidc sampleServer newResponseWriter sampleLogin)"
  let ?nocode = "sampleRequest Map.empty Map.empty [''state'' \<mapsto> [''YzE='']]"
  have st: "queryGet sampleCallback ''state'' = ''YzE=''"
    and code: "queryGet sampleCallback ''code'' = ''abc''"
    and st2: "queryGet ?nocode ''state'' = ''YzE=''"
    and code2: "queryGet ?nocode ''code'' = ''''"
    by (simp_all add: sampleCallback_def sampleRequest_def queryGet_def)
  have cl: "queryGet sampleLogin ''cluster'' = ''c1''"
    by (simp add: sampleLogin_def sampleRequest_def queryGet_def)
  have fresh: "oauthRequestMap sampleServer ''YzE='' = None"
    by (simp add: sampleServer_def)
  obtain cfg where cfg: "oauthRequestMap ?s1 ''YzE='' = Some cfg"
    using sample_login by auto
  have dev: "devMode (headlampConfig ?s1) = False"
    by (simp add: oidc_def Let_def sampleServer_def sampleConfig_def split: sum.splits)
  have ok: "Exchange sampleOidc cfg ''abc'' = Inr ''token-abc''"
    "Extra_id_token sampleOidc ''token-abc'' = Some ''token-abc''"
    "Verify sampleOidc cfg ''token-abc'' = Inr ''token-abc''"
    "Claims sampleOidc ''token-abc'' = None"
    and bad: "Exchange sampleOidc cfg '''' = Inl ''invalid_grant''"
    by (simp_all add: sampleOidc_def)
  have pad: "padLeft 1 ''c1'' = ''c1''" "padLeft 2 ''token-abc'' = ''token-abc''"
    by (simp_all add: padLeft_def)
  note T1 = oidcCallback_keeps_pending_flow [of sampleOidc ?s1 newResponseWriter sampleCallback
              sampleCallback sampleOidc sampleOidc sampleLogin sampleServer newResponseWriter]
  note T2 = oidcCallback_keeps_pending_flow [of sampleOidc ?s1 newResponseWriter sampleCallback
              ?nocode sampleOidc sampleOidc sampleLogin sampleServer newResponseWriter]
  note T3 = oidcCallback_keeps_pending_flow [of sampleOidc sampleServer newResponseWriter
              sampleCallback sampleCallback sampleOidc sampleOidc sampleLogin sampleServer
              newResponseWriter]
  have keep: "fst (oidcCallback sampleOidc ?s1 newResponseWriter sampleCallback) = ?s1"
    using T1 by blast
  have good: "snd (oidcCallback sampleOidc
       (fst (oidcCallback sampleOidc ?s1 newResponseWriter sampleCallback))
       newResponseWriter sampleCallback)
     = http_Redirect newResponseWriter ''/auth?cluster=c1&token=token-abc'' 303"
    using T1 st code cfg sample_decode_c1 ok dev pad
    by (auto simp: StatusSeeOther_def)
  have fail: "snd (oidcCallback sampleOidc
       (fst (oidcCallback sampleOidc ?s1 newResponseWriter sampleCallback))
       newResponseWriter ?nocode)
     = http_Error newResponseWriter ''Failed to exchange token: invalid_grant'' 500"
    using T2 st2 code2 cfg sample_decode_c1 bad
    by (auto simp: StatusInternalServerError_def)
  have unk: "statusCode (snd (oidcCallback sampleOidc sampleServer newResponseWriter sampleCallback))
     = Some 400"
    using T3 st fresh by (auto simp: StatusBadRequest_def)
  show ?thesis
    using st cl sample_encode_c1 cfg keep good fail fresh unk by simp
qed

end
